theory Spec2Isabelle
  imports Main "HOL-Library.Char_ord" "HOL-Library.List_Lexorder" "HOL-Library.Option_ord"
begin

section \<open>JavaScript values used by the handlers of server.js\<close>

text \<open>
  Strings are char lists, one char per character of the JavaScript string (so the model
  covers strings whose code points are below 256). Numbers are exact integers, and the
  JavaScript value NaN is \<open>None\<close>. The numbers of the source are doubles, which are
  exact on integers below \<open>2 ^ 53\<close>: that is the range the model speaks about, and a
  page or page size written with more digits than that is outside it.
\<close>

type_synonym js_number = "int option"

definition js_sub :: "js_number \<Rightarrow> js_number \<Rightarrow> js_number" where
  "js_sub a b = (case a of None \<Rightarrow> None | Some x \<Rightarrow> (case b of None \<Rightarrow> None | Some y \<Rightarrow> Some (x - y)))"

definition js_mul :: "js_number \<Rightarrow> js_number \<Rightarrow> js_number" where
  "js_mul a b = (case a of None \<Rightarrow> None | Some x \<Rightarrow> (case b of None \<Rightarrow> None | Some y \<Rightarrow> Some (x * y)))"

text \<open>
  The guard \<open>isNaN(x) || x < k ? d : x\<close> of the handler: the default \<open>d\<close> for NaN and for
  a number below \<open>k\<close>, the number itself otherwise.
\<close>

definition orDefault :: "js_number \<Rightarrow> int \<Rightarrow> int \<Rightarrow> int" where
  "orDefault x k d = (case x of None \<Rightarrow> d | Some n \<Rightarrow> if n < k then d else n)"

subsection \<open>parseInt\<close>

text \<open>
  \<open>parseInt(s)\<close> with no radix: leading white space is skipped, one sign is read, the
  prefix \<open>0x\<close> or \<open>0X\<close> selects radix 16 (radix 10 otherwise), and the longest prefix of
  digits of that radix is the value; no digit at all gives NaN.
\<close>

definition isWhiteSpace :: "char \<Rightarrow> bool" where
  "isWhiteSpace c = (of_char c \<in> {9, 10, 11, 12, 13, 32, 160 :: nat})"

definition digitValue :: "char \<Rightarrow> nat option" where
  "digitValue c =
     (let n = (of_char c :: nat) in
      if 48 \<le> n \<and> n \<le> 57 then Some (n - 48)
      else if 97 \<le> n \<and> n \<le> 122 then Some (n - 87)
      else if 65 \<le> n \<and> n \<le> 90 then Some (n - 55)
      else None)"

definition isDigitOf :: "nat \<Rightarrow> char \<Rightarrow> bool" where
  "isDigitOf R c = (case digitValue c of None \<Rightarrow> False | Some d \<Rightarrow> d < R)"

fun digitsValue :: "nat \<Rightarrow> nat \<Rightarrow> string \<Rightarrow> nat" where
  "digitsValue R acc [] = acc"
| "digitsValue R acc (c # cs) =
     (case digitValue c of None \<Rightarrow> acc | Some d \<Rightarrow> digitsValue R (acc * R + d) cs)"

definition parseDigits :: "nat \<Rightarrow> string \<Rightarrow> nat option" where
  "parseDigits R s =
     (let ds = takeWhile (isDigitOf R) s in
      if ds = [] then None else Some (digitsValue R 0 ds))"

definition hasHexPrefix :: "string \<Rightarrow> bool" where
  "hasHexPrefix s = (take 2 s = ''0x'' \<or> take 2 s = ''0X'')"

definition parseInt :: "string \<Rightarrow> js_number" where
  "parseInt input =
     (let s = dropWhile isWhiteSpace input;
          neg = (take 1 s = ''-'');
          s1 = (if take 1 s = ''-'' \<or> take 1 s = ''+'' then drop 1 s else s);
          mag = (if hasHexPrefix s1 then parseDigits 16 (drop 2 s1) else parseDigits 10 s1)
      in case mag of None \<Rightarrow> None
         | Some m \<Rightarrow> Some (if neg then - int m else int m))"

subsection \<open>String.prototype.split, Array.prototype.includes, the sort pattern\<close>

fun js_split :: "char \<Rightarrow> string \<Rightarrow> string list" where
  "js_split sep [] = [[]]"
| "js_split sep (c # cs) =
     (if c = sep then [] # js_split sep cs
      else (case js_split sep cs of [] \<Rightarrow> [[c]] | p # ps \<Rightarrow> (c # p) # ps))"

definition arrayIncludes :: "'a list \<Rightarrow> 'a \<Rightarrow> bool" where
  "arrayIncludes xs x = (x \<in> set xs)"

definition isAlnum :: "char \<Rightarrow> bool" where
  "isAlnum c =
     (let n = (of_char c :: nat) in
      (48 \<le> n \<and> n \<le> 57) \<or> (65 \<le> n \<and> n \<le> 90) \<or> (97 \<le> n \<and> n \<le> 122))"

definition upperChar :: "char \<Rightarrow> char" where
  "upperChar c =
     (case map_of (zip ''abcdefghijklmnopqrstuvwxyz'' ''ABCDEFGHIJKLMNOPQRSTUVWXYZ'') c of
        None \<Rightarrow> c | Some u \<Rightarrow> u)"

definition toUpperCase :: "string \<Rightarrow> string" where
  "toUpperCase s = map upperChar s"

text \<open>
  \<open>$sort.match(/^([a-zA-Z0-9]+)_(asc|desc)$/i)\<close>: the two captured groups, or \<open>None\<close>
  for a null match. The first group cannot hold an underscore, so it is the longest
  alphanumeric prefix; the rest must be an underscore and the direction, in any case.
\<close>

definition sortMatch :: "string \<Rightarrow> (string \<times> string) option" where
  "sortMatch s =
     (let col = takeWhile isAlnum s; rest = dropWhile isAlnum s in
      if col \<noteq> [] \<and> take 1 rest = ''_''
         \<and> (toUpperCase (drop 1 rest) = ''ASC'' \<or> toUpperCase (drop 1 rest) = ''DESC'')
      then Some (col, drop 1 rest) else None)"

section \<open>The list handler: query parameters to SQL\<close>

text \<open>
  \<open>request.query\<close>, destructured into \<open>filter\<close>, \<open>$sort\<close>, \<open>$page\<close> and \<open>$pageSize\<close>. A
  parameter is absent (\<open>None\<close>), a string when the query string gives it once, or the
  array of its values when the query string gives it more than once.
\<close>

datatype param = Str string | Arr "string list"

record querystring =
  qs_filter :: "param option"
  qs_sort :: "param option"
  qs_page :: "param option"
  qs_pageSize :: "param option"

text \<open>
  \<open>parseInt\<close> converts its argument to a string first: an array becomes its elements
  joined by commas.
\<close>

fun joinComma :: "string list \<Rightarrow> string" where
  "joinComma [] = []"
| "joinComma [x] = x"
| "joinComma (x # y # ys) = x @ '','' @ joinComma (y # ys)"

definition paramToString :: "param \<Rightarrow> string" where
  "paramToString v = (case v of Str s \<Rightarrow> s | Arr xs \<Rightarrow> joinComma xs)"

text \<open>The parameters of a request that gives each of them at most once.\<close>

record query =
  filter_param :: "string option"
  sort_param :: "string option"
  page_param :: "string option"
  pageSize_param :: "string option"

text \<open>
  The statement the handler sends: the optional \<open>WHERE col = ?\<close> with its bound value,
  the optional \<open>ORDER BY col DIR\<close>, and the two bound numbers of \<open>LIMIT ? OFFSET ?\<close>.
\<close>

record statement =
  whereClause :: "(string \<times> string) option"
  orderBy :: "(string \<times> string) option"
  safeLimit :: int
  safeOffset :: int

definition allowedFilters :: "string list" where
  "allowedFilters = [''id'', ''name'', ''race'', ''alignment'']"

definition allowedSorts :: "string list" where
  "allowedSorts = [''id'', ''name'', ''race'', ''alignment'', ''imageUrl'']"

text \<open>
  Step 1 of the handler: \<open>if (filter)\<close> skips an absent and an empty filter; otherwise
  \<open>filter.split(':')\<close> must give exactly two parts, the first one an allowed column.
  The result is the pushed clause \<open>key = ?\<close> with its bound value, if any.
\<close>

definition filterClause :: "string option \<Rightarrow> (string \<times> string) option" where
  "filterClause f =
     (case f of None \<Rightarrow> None
      | Some s \<Rightarrow>
          if s = [] then None
          else (case js_split CHR '':'' s of
                  [key, val] \<Rightarrow> if arrayIncludes allowedFilters key then Some (key, val) else None
                | _ \<Rightarrow> None))"

text \<open>
  Step 2: \<open>if ($sort) { ... } else { sql += " ORDER BY id ASC" }\<close>. The default is
  appended on the else branch only, that is for an absent or empty \<open>$sort\<close>; inside
  the if, an ORDER BY is appended when the pattern matches and the column is allowed.
\<close>

definition sortClause :: "string option \<Rightarrow> (string \<times> string) option" where
  "sortClause s =
     (case s of None \<Rightarrow> Some (''id'', ''ASC'')
      | Some t \<Rightarrow>
          if t = [] then Some (''id'', ''ASC'')
          else (case sortMatch t of
                  None \<Rightarrow> None
                | Some (col, dir) \<Rightarrow>
                    if arrayIncludes allowedSorts col then Some (col, toUpperCase dir) else None))"

text \<open>
  Step 3: \<open>limit = parseInt($pageSize)\<close> and \<open>offset = (parseInt($page) - 1) * limit\<close>,
  with the defaults 10 and 1 of the destructuring for absent parameters, then the two
  guards that give \<open>safeLimit\<close> and \<open>safeOffset\<close>.
\<close>

definition rawLimit :: "query \<Rightarrow> js_number" where
  "rawLimit q = (case pageSize_param q of None \<Rightarrow> Some 10 | Some s \<Rightarrow> parseInt s)"

definition rawPage :: "query \<Rightarrow> js_number" where
  "rawPage q = (case page_param q of None \<Rightarrow> Some 1 | Some s \<Rightarrow> parseInt s)"

definition rawOffset :: "query \<Rightarrow> js_number" where
  "rawOffset q = js_mul (js_sub (rawPage q) (Some 1)) (rawLimit q)"

definition listStatement :: "query \<Rightarrow> statement" where
  "listStatement q =
     \<lparr> whereClause = filterClause (filter_param q),
       orderBy = sortClause (sort_param q),
       safeLimit = orDefault (rawLimit q) 1 10,
       safeOffset = orDefault (rawOffset q) 0 0 \<rparr>"

text \<open>
  \<open>filter.split\<close> and \<open>$sort.match\<close> exist on strings only. An array is truthy, so the
  handler calls the method and throws a TypeError, at the filter first and at \<open>$sort\<close>
  next; the message is the \<open>Inl\<close> value. Otherwise the handler goes on with the two
  strings, and with the page and page size as \<open>parseInt\<close> reads them.
\<close>

definition stringParams :: "querystring \<Rightarrow> string + query" where
  "stringParams rq =
     (case qs_filter rq of
        Some (Arr xs) \<Rightarrow> Inl ''filter.split is not a function''
      | f \<Rightarrow>
          (case qs_sort rq of
             Some (Arr ys) \<Rightarrow> Inl ''$sort.match is not a function''
           | t \<Rightarrow>
               Inr \<lparr> filter_param = map_option paramToString f,
                     sort_param = map_option paramToString t,
                     page_param = map_option paramToString (qs_page rq),
                     pageSize_param = map_option paramToString (qs_pageSize rq) \<rparr>))"

text \<open>The string \<open>sql\<close> the handler has concatenated when it calls \<open>db.all\<close>.\<close>

definition sqlText :: "statement \<Rightarrow> string" where
  "sqlText st =
     ''SELECT * FROM demons''
     @ (case whereClause st of None \<Rightarrow> [] | Some (key, val) \<Rightarrow> '' WHERE '' @ key @ '' = ?'')
     @ (case orderBy st of None \<Rightarrow> [] | Some (col, dir) \<Rightarrow> '' ORDER BY '' @ col @ '' '' @ dir)
     @ '' LIMIT ? OFFSET ?''"

text \<open>The array \<open>params\<close> bound to the question marks of that text, in order.\<close>

datatype bound = Text string | Number int

definition sqlParams :: "statement \<Rightarrow> bound list" where
  "sqlParams st =
     (case whereClause st of None \<Rightarrow> [] | Some (key, val) \<Rightarrow> [Text val])
     @ [Number (safeLimit st), Number (safeOffset st)]"

section \<open>The demons table and the engine's answers\<close>

text \<open>
  A row of the table \<open>demons\<close> created by \<open>initDb\<close>: \<open>id INTEGER PRIMARY KEY
  AUTOINCREMENT\<close> and five TEXT columns, NULL being \<open>None\<close>.
\<close>

record demon =
  demon_id :: nat
  demon_name :: "string option"
  demon_description :: "string option"
  demon_race :: "string option"
  demon_alignment :: "string option"
  demon_imageUrl :: "string option"

definition columnText :: "string \<Rightarrow> demon \<Rightarrow> string option" where
  "columnText col r =
     (if col = ''name'' then demon_name r
      else if col = ''description'' then demon_description r
      else if col = ''race'' then demon_race r
      else if col = ''alignment'' then demon_alignment r
      else if col = ''imageUrl'' then demon_imageUrl r
      else None)"

text \<open>
  \<open>col = ?\<close> with a bound text. On a TEXT column the comparison is equality of the two
  texts (binary collation), and NULL equals nothing. On \<open>id\<close> the engine first converts
  the bound text to a number; that conversion is the parameter \<open>affinity\<close>, the integer a
  text converts to, if any.
\<close>

definition whereMatches :: "(string \<Rightarrow> int option) \<Rightarrow> (string \<times> string) option \<Rightarrow> demon \<Rightarrow> bool" where
  "whereMatches affinity w r =
     (case w of None \<Rightarrow> True
      | Some (col, val) \<Rightarrow>
          if col = ''id'' then affinity val = Some (int (demon_id r))
          else columnText col r = Some val)"

text \<open>
  The engine is given the rows of the table in the order in which it visits them, which
  is the order of the rowid, that is of \<open>id\<close>. With no ORDER BY the rows stay in that
  order. \<open>ORDER BY col DIR\<close>: NULL sorts before every text, texts compare character by
  character, and rows with equal keys stay in the order in which they were visited, in
  both directions.
\<close>

definition sortDesc :: "('a \<Rightarrow> 'k::linorder) \<Rightarrow> 'a list \<Rightarrow> 'a list" where
  "sortDesc f rs = rev (sort_key f (rev rs))"

definition orderRows :: "(string \<times> string) option \<Rightarrow> demon list \<Rightarrow> demon list" where
  "orderRows ob rs =
     (case ob of None \<Rightarrow> rs
      | Some (col, dir) \<Rightarrow>
          if dir = ''DESC''
          then (if col = ''id'' then sortDesc demon_id rs else sortDesc (columnText col) rs)
          else (if col = ''id'' then sort_key demon_id rs else sort_key (columnText col) rs))"

text \<open>
  \<open>LIMIT l OFFSET k\<close>: skip \<open>k\<close> rows and return at most \<open>l\<close>; a negative limit is no
  limit, a negative offset is offset 0.
\<close>

definition limitOffset :: "int \<Rightarrow> int \<Rightarrow> 'a list \<Rightarrow> 'a list" where
  "limitOffset l k xs = (if l < 0 then drop (nat k) xs else take (nat l) (drop (nat k) xs))"

definition db_all :: "(string \<Rightarrow> int option) \<Rightarrow> statement \<Rightarrow> demon list \<Rightarrow> demon list" where
  "db_all affinity st rs =
     limitOffset (safeLimit st) (safeOffset st)
       (orderRows (orderBy st) (filter (whereMatches affinity (whereClause st)) rs))"

section \<open>Replies and the two routes of /api/v1/demons\<close>

text \<open>
  The bodies of the replies: the rows, the created record, the \<open>error\<close> text a handler
  sends itself, the framework's answer to a body that fails the schema, and its answer
  to an exception thrown by a handler, which carries the message.
\<close>

datatype payload =
    Rows "demon list"
  | Created demon
  | Error string
  | ValidationError
  | Thrown string

datatype reply = Reply nat payload

text \<open>
  \<open>GET /api/v1/demons\<close> from the point where the filter and \<open>$sort\<close> are strings or
  absent. \<open>io_error\<close> is the message of a storage failure the engine raises for this
  statement, \<open>None\<close> when the storage works.
\<close>

definition list_demons :: "(string \<Rightarrow> int option) \<Rightarrow> string option \<Rightarrow> query \<Rightarrow> demon list \<Rightarrow> reply" where
  "list_demons affinity io_error q rs =
     (case io_error of
        Some msg \<Rightarrow> Reply 500 (Error ''Internal Server Error'')
      | None \<Rightarrow> Reply 200 (Rows (db_all affinity (listStatement q) rs)))"

text \<open>
  The whole route: an exception thrown by the handler is answered 500 by the framework,
  before any statement is sent.
\<close>

definition get_demons :: "(string \<Rightarrow> int option) \<Rightarrow> string option \<Rightarrow> querystring \<Rightarrow> demon list \<Rightarrow> reply" where
  "get_demons affinity io_error rq rs =
     (case stringParams rq of
        Inl msg \<Rightarrow> Reply 500 (Thrown msg)
      | Inr q \<Rightarrow> list_demons affinity io_error q rs)"

subsection \<open>The store: rows and the AUTOINCREMENT counter\<close>

record store =
  rows :: "demon list"
  seq :: nat

text \<open>
  AUTOINCREMENT: the new id is one more than the largest id the table has ever held,
  which the engine keeps in \<open>seq\<close>.
\<close>

definition newRowid :: "store \<Rightarrow> nat" where
  "newRowid s = Suc (fold max (map demon_id (rows s)) (seq s))"

type_synonym insert_params =
  "string option \<times> string option \<times> string option \<times> string option \<times> string option"

definition insertedRow :: "store \<Rightarrow> insert_params \<Rightarrow> demon" where
  "insertedRow s ps =
     (case ps of (n, d, r, a, u) \<Rightarrow>
        \<lparr> demon_id = newRowid s, demon_name = n, demon_description = d, demon_race = r,
          demon_alignment = a, demon_imageUrl = u \<rparr>)"

definition nameTaken :: "store \<Rightarrow> string option \<Rightarrow> bool" where
  "nameTaken s n = (n \<in> set (map demon_name (rows s)))"

text \<open>
  \<open>INSERT INTO demons (name, description, race, alignment, imageUrl) VALUES (?, ?, ?, ?, ?)\<close>:
  the error message, or the new id (\<open>this.lastID\<close>) and the new store.
\<close>

definition run_insert :: "string option \<Rightarrow> store \<Rightarrow> insert_params \<Rightarrow> string + (nat \<times> store)" where
  "run_insert io_error s ps =
     (case io_error of
        Some msg \<Rightarrow> Inl msg
      | None \<Rightarrow>
          if fst ps = None then Inl ''SQLITE_CONSTRAINT: NOT NULL constraint failed: demons.name''
          else if nameTaken s (fst ps) then Inl ''SQLITE_CONSTRAINT: UNIQUE constraint failed: demons.name''
          else Inr (newRowid s, \<lparr> rows = rows s @ [insertedRow s ps], seq = newRowid s \<rparr>))"

text \<open>
  \<open>INSERT OR IGNORE\<close>, used by the seed loader: a row that breaks a constraint is
  skipped; the counter has moved all the same.
\<close>

definition run_insert_or_ignore :: "store \<Rightarrow> insert_params \<Rightarrow> store" where
  "run_insert_or_ignore s ps =
     (if fst ps = None \<or> nameTaken s (fst ps) then s\<lparr> seq := newRowid s \<rparr>
      else \<lparr> rows = rows s @ [insertedRow s ps], seq = newRowid s \<rparr>)"

subsection \<open>demonSchema and POST /api/v1/demons\<close>

record body =
  body_name :: "string option"
  body_description :: "string option"
  body_race :: "string option"
  body_alignment :: "string option"
  body_imageUrl :: "string option"

definition alignmentEnum :: "string list" where
  "alignmentEnum =
     [''Law'', ''Neutral'', ''Chaos'', ''unknown'', ''Light-Law'', ''Dark-Chaos'', ''Neutral-Neutral'']"

text \<open>
  The body schema on string-valued fields. \<open>uri\<close> is the validator's check of the format
  \<open>uri\<close>, a parameter here.
\<close>

definition demonSchema :: "(string \<Rightarrow> bool) \<Rightarrow> body \<Rightarrow> bool" where
  "demonSchema uri b =
     ((case body_name b of None \<Rightarrow> False | Some n \<Rightarrow> 1 \<le> length n \<and> length n \<le> 100)
      \<and> (case body_race b of None \<Rightarrow> False | Some r \<Rightarrow> length r \<le> 50)
      \<and> (case body_alignment b of None \<Rightarrow> False | Some a \<Rightarrow> arrayIncludes alignmentEnum a)
      \<and> (case body_description b of None \<Rightarrow> True | Some d \<Rightarrow> length d \<le> 500)
      \<and> (case body_imageUrl b of None \<Rightarrow> True | Some u \<Rightarrow> uri u))"

fun startsWith :: "string \<Rightarrow> string \<Rightarrow> bool" where
  "startsWith s [] = True"
| "startsWith [] (p # ps) = False"
| "startsWith (c # cs) (p # ps) = (c = p \<and> startsWith cs ps)"

fun stringIncludes :: "string \<Rightarrow> string \<Rightarrow> bool" where
  "stringIncludes [] sub = (sub = [])"
| "stringIncludes (c # cs) sub = (startsWith (c # cs) sub \<or> stringIncludes cs sub)"

definition bodyParams :: "body \<Rightarrow> insert_params" where
  "bodyParams b =
     (body_name b, body_description b, body_race b, body_alignment b, body_imageUrl b)"

definition post_demons :: "(string \<Rightarrow> bool) \<Rightarrow> string option \<Rightarrow> store \<Rightarrow> body \<Rightarrow> reply \<times> store" where
  "post_demons uri io_error s b =
     (if \<not> demonSchema uri b then (Reply 400 ValidationError, s)
      else (case run_insert io_error s (bodyParams b) of
              Inl msg \<Rightarrow>
                if stringIncludes msg ''UNIQUE constraint failed''
                then (Reply 409 (Error ''Demon already exists''), s)
                else (Reply 500 (Error ''Internal Server Error''), s)
            | Inr (lastID, s') \<Rightarrow>
                (Reply 201 (Created \<lparr> demon_id = lastID, demon_name = body_name b,
                    demon_description = body_description b, demon_race = body_race b,
                    demon_alignment = body_alignment b, demon_imageUrl = body_imageUrl b \<rparr>), s')))"

subsection \<open>seedData\<close>

record seedObject =
  seed_name :: "string option"
  seed_description :: "string option"
  seed_race :: "string option"
  seed_alignment :: "string option"
  image_source_url :: "string option"
  img :: "string option"

text \<open>\<open>a || b\<close> on values that are a string or missing: the empty string is falsy.\<close>

fun js_or :: "string option \<Rightarrow> string option \<Rightarrow> string option" where
  "js_or None b = b"
| "js_or (Some s) b = (if s = [] then b else Some s)"

definition seedImg :: "seedObject \<Rightarrow> string option" where
  "seedImg d = js_or (js_or (image_source_url d) (img d)) (Some [])"

definition seedParams :: "seedObject \<Rightarrow> insert_params" where
  "seedParams d = (seed_name d, seed_description d, seed_race d, seed_alignment d, seedImg d)"

definition seedDemon :: "store \<Rightarrow> seedObject \<Rightarrow> store" where
  "seedDemon s d = run_insert_or_ignore s (seedParams d)"

text \<open>One seed file: \<open>None\<close> when reading or parsing it throws, which the loop catches.\<close>

definition seedFile :: "store \<Rightarrow> seedObject list option \<Rightarrow> store" where
  "seedFile s dat = (case dat of None \<Rightarrow> s | Some ds \<Rightarrow> fold (\<lambda>d t. seedDemon t d) ds s)"

definition seedData :: "store \<Rightarrow> seedObject list option list \<Rightarrow> store" where
  "seedData s files = fold (\<lambda>f t. seedFile t f) files s"

section \<open>Predicates the properties are stated with\<close>

text \<open>A value that JavaScript treats as true: a string that is present and not empty.\<close>

definition truthy :: "string option \<Rightarrow> bool" where
  "truthy v = (case v of None \<Rightarrow> False | Some s \<Rightarrow> s \<noteq> [])"


text \<open>
  What the schema of the table keeps true of a store: names and ids are unique, the rows
  are in ascending order of id, no name is NULL, and every id is positive and at most
  the counter.
\<close>

definition storeOk :: "store \<Rightarrow> bool" where
  "storeOk s =
     (distinct (map demon_name (rows s)) \<and> distinct (map demon_id (rows s))
      \<and> sorted (map demon_id (rows s))
      \<and> list_all (\<lambda>r. demon_name r \<noteq> None \<and> 0 < demon_id r \<and> demon_id r \<le> seq s) (rows s))"

section \<open>Concrete requests, rows and bodies\<close>

text \<open>Shorthand for the concrete inputs at which the properties below are evaluated.\<close>

abbreviation listRequest ::
  "string option \<Rightarrow> string option \<Rightarrow> string option \<Rightarrow> string option \<Rightarrow> query" where
  "listRequest f s p ps \<equiv>
     \<lparr> filter_param = f, sort_param = s, page_param = p, pageSize_param = ps \<rparr>"

abbreviation rawRequest ::
  "param option \<Rightarrow> param option \<Rightarrow> param option \<Rightarrow> param option \<Rightarrow> querystring" where
  "rawRequest f s p ps \<equiv> \<lparr> qs_filter = f, qs_sort = s, qs_page = p, qs_pageSize = ps \<rparr>"

abbreviation demonRow :: "nat \<Rightarrow> string \<Rightarrow> string option \<Rightarrow> string \<Rightarrow> demon" where
  "demonRow i n r a \<equiv>
     \<lparr> demon_id = i, demon_name = Some n, demon_description = None, demon_race = r,
       demon_alignment = Some a, demon_imageUrl = None \<rparr>"

abbreviation createBody :: "string \<Rightarrow> string \<Rightarrow> string option \<Rightarrow> body" where
  "createBody n r a \<equiv>
     \<lparr> body_name = Some n, body_description = None, body_race = Some r, body_alignment = a,
       body_imageUrl = None \<rparr>"

abbreviation seedOf :: "string \<Rightarrow> string option \<Rightarrow> string option \<Rightarrow> seedObject" where
  "seedOf n u i \<equiv>
     \<lparr> seed_name = Some n, seed_description = None, seed_race = Some ''Fata'',
       seed_alignment = Some ''Neutral'', image_source_url = u, img = i \<rparr>"

abbreviation emptyStore :: store where
  "emptyStore \<equiv> \<lparr> rows = [], seq = 0 \<rparr>"

abbreviation noAffinity :: "string \<Rightarrow> int option" where
  "noAffinity \<equiv> (\<lambda>v. None)"

abbreviation anyUri :: "string \<Rightarrow> bool" where
  "anyUri \<equiv> (\<lambda>u. True)"

section \<open>The store and the create route\<close>

lemma fold_max_ge_init: "a \<le> fold max xs (a::nat)"
  by (induction xs arbitrary: a) (auto intro: order_trans [OF max.cobounded2])

lemma fold_max_ge_elem: "x \<in> set xs \<Longrightarrow> x \<le> fold max xs (a::nat)"
proof (induction xs arbitrary: a)
  case Nil
  then show ?case by simp
next
  case (Cons y ys)
  show ?case
  proof (cases "x = y")
    case True
    have "y \<le> max y a" by simp
    also have "\<dots> \<le> fold max ys (max y a)" by (rule fold_max_ge_init)
    finally show ?thesis using True by simp
  next
    case False
    with Cons.prems have "x \<in> set ys" by simp
    then show ?thesis using Cons.IH by simp
  qed
qed

lemma newRowid_above_seq: "seq s < newRowid s"
  unfolding newRowid_def using fold_max_ge_init [of "seq s" "map demon_id (rows s)"] by simp

lemma newRowid_above_rows: "r \<in> set (rows s) \<Longrightarrow> demon_id r < newRowid s"
  unfolding newRowid_def
  using fold_max_ge_elem [of "demon_id r" "map demon_id (rows s)" "seq s"] by simp

lemma demonSchema_name: "demonSchema uri b \<Longrightarrow> body_name b \<noteq> None"
  by (auto simp: demonSchema_def split: option.splits)

lemma insertedRow_body:
  "insertedRow s (bodyParams b) =
     \<lparr> demon_id = newRowid s, demon_name = body_name b, demon_description = body_description b,
       demon_race = body_race b, demon_alignment = body_alignment b,
       demon_imageUrl = body_imageUrl b \<rparr>"
  by (simp add: insertedRow_def bodyParams_def)

text \<open>The three outcomes of the insert on a body that has a name.\<close>

lemma run_insert_fresh:
  assumes "body_name b \<noteq> None" and "\<not> nameTaken s (body_name b)"
  shows "run_insert None s (bodyParams b) =
           Inr (newRowid s, \<lparr> rows = rows s @ [insertedRow s (bodyParams b)], seq = newRowid s \<rparr>)"
  using assms by (simp add: run_insert_def bodyParams_def)

lemma run_insert_taken:
  assumes "body_name b \<noteq> None" and "nameTaken s (body_name b)"
  shows "run_insert None s (bodyParams b) =
           Inl ''SQLITE_CONSTRAINT: UNIQUE constraint failed: demons.name''"
  using assms by (simp add: run_insert_def bodyParams_def)

lemma post_created_cases:
  assumes "post_demons uri io s b = (Reply 201 p, s1)"
  shows "demonSchema uri b \<and> \<not> nameTaken s (body_name b)
         \<and> s1 = \<lparr> rows = rows s @ [insertedRow s (bodyParams b)], seq = newRowid s \<rparr>"
  using assms
  by (auto simp: post_demons_def run_insert_def bodyParams_def
           split: if_splits option.splits sum.splits)

lemma post_conflict_when_taken:
  assumes "demonSchema uri b" and "nameTaken s (body_name b)"
  shows "post_demons uri None s b = (Reply 409 (Error ''Demon already exists''), s)"
  using assms run_insert_taken [OF demonSchema_name [OF assms(1)] assms(2)]
  by (simp add: post_demons_def)

lemma filter_name_absent:
  "\<not> nameTaken s n \<Longrightarrow> filter (\<lambda>r. demon_name r = n) (rows s) = []"
  by (auto simp: nameTaken_def filter_empty_conv)

subsection \<open>The store invariant\<close>

text \<open>
  Creating and seeding keep the invariant: a failed or ignored insert leaves the rows as
  they are, and a new row gets a fresh name and an id above all others.
\<close>

lemma storeOk_empty: "storeOk emptyStore"
  by (simp add: storeOk_def)

lemma storeOk_append:
  assumes "storeOk s" and "fst ps \<noteq> None" and "\<not> nameTaken s (fst ps)"
  shows "storeOk \<lparr> rows = rows s @ [insertedRow s ps], seq = newRowid s \<rparr>"
proof -
  let ?row = "insertedRow s ps"
  have idn: "demon_id ?row = newRowid s" and nm: "demon_name ?row = fst ps"
    by (simp_all add: insertedRow_def split: prod.splits)
  have fresh_id: "newRowid s \<notin> demon_id ` set (rows s)"
  proof
    assume "newRowid s \<in> demon_id ` set (rows s)"
    then obtain x where "x \<in> set (rows s)" and "newRowid s = demon_id x" by auto
    then show False using newRowid_above_rows [of x s] by simp
  qed
  have fresh_name: "fst ps \<notin> demon_name ` set (rows s)"
    using assms(3) by (simp add: nameTaken_def)
  have names: "distinct (map demon_name (rows s @ [?row]))"
    using assms(1) fresh_name by (simp add: storeOk_def nm)
  have ids: "distinct (map demon_id (rows s @ [?row]))"
    using assms(1) fresh_id by (simp add: storeOk_def idn)
  have asc: "sorted (map demon_id (rows s @ [?row]))"
    using assms(1) newRowid_above_rows [of _ s]
    by (auto simp: storeOk_def idn sorted_append intro: less_imp_le)
  have old: "list_all (\<lambda>r. demon_name r \<noteq> None \<and> 0 < demon_id r \<and> demon_id r \<le> newRowid s) (rows s)"
    using assms(1) newRowid_above_seq [of s] by (auto simp: storeOk_def list_all_iff)
  have new: "demon_name ?row \<noteq> None \<and> 0 < demon_id ?row \<and> demon_id ?row \<le> newRowid s"
    using assms(2) by (simp add: idn nm newRowid_def)
  show ?thesis using names ids asc old new by (simp add: storeOk_def)
qed

lemma storeOk_bump: "storeOk s \<Longrightarrow> storeOk (s\<lparr> seq := newRowid s \<rparr>)"
  using newRowid_above_seq [of s] by (auto simp: storeOk_def list_all_iff)

lemma storeOk_post: "storeOk s \<Longrightarrow> storeOk (snd (post_demons uri io s b))"
  by (auto simp: post_demons_def run_insert_def storeOk_append split: option.splits)

lemma storeOk_seedDemon: "storeOk s \<Longrightarrow> storeOk (seedDemon s d)"
  by (auto simp: seedDemon_def run_insert_or_ignore_def storeOk_append storeOk_bump)

lemma storeOk_seedFile: "storeOk s \<Longrightarrow> storeOk (seedFile s dat)"
proof (cases dat)
  case None
  then show "storeOk s \<Longrightarrow> ?thesis" by (simp add: seedFile_def)
next
  case (Some ds)
  have "storeOk t \<Longrightarrow> storeOk (fold (\<lambda>d t. seedDemon t d) ds t)" for t
    by (induction ds arbitrary: t) (simp_all add: storeOk_seedDemon)
  then show "storeOk s \<Longrightarrow> ?thesis" using Some by (simp add: seedFile_def)
qed

lemma storeOk_seedData: "storeOk s \<Longrightarrow> storeOk (seedData s files)"
  unfolding seedData_def by (induction files arbitrary: s) (simp_all add: storeOk_seedFile)

subsection \<open>Validation, fresh ids and conflicts\<close>

text \<open>
  C6. A create request whose body has no \<open>alignment\<close>, or an \<open>alignment\<close> outside the
  enumerated set, is answered 400 by the schema validation, whatever the other fields
  and the state of the storage are, and the store is left as it was: no insert is run.
\<close>

theorem create_rejects_bad_alignment:
  assumes "body_alignment b = None \<or> (\<exists>a. body_alignment b = Some a \<and> a \<notin> set alignmentEnum)"
  shows "post_demons uri io_error s b = (Reply 400 ValidationError, s)"
proof -
  have "\<not> demonSchema uri b"
    using assms by (auto simp: demonSchema_def arrayIncludes_def split: option.splits)
  then show ?thesis by (simp add: post_demons_def)
qed

text \<open>Both cases of C6 at a concrete body: the alignment \<open>Evil\<close>, and none.\<close>

theorem create_rejects_bad_alignment_witness:
  "post_demons anyUri None emptyStore (createBody ''Pixie'' ''Fata'' (Some ''Evil''))
     = (Reply 400 ValidationError, emptyStore)
   \<and> post_demons anyUri None emptyStore (createBody ''Pixie'' ''Fata'' None)
     = (Reply 400 ValidationError, emptyStore)"
proof -
  have outside: "''Evil'' \<notin> set alignmentEnum" by (simp add: alignmentEnum_def)
  show ?thesis
    using create_rejects_bad_alignment [of "createBody ''Pixie'' ''Fata'' (Some ''Evil'')"
        anyUri None emptyStore]
      create_rejects_bad_alignment [of "createBody ''Pixie'' ''Fata'' None" anyUri None emptyStore]
      outside
    by simp
qed

text \<open>
  C5. For a body that satisfies the schema and whose name no row holds, with the storage
  working, the create route answers 201 with the row it stored. The id of that row is
  positive, above the counter of the ids handed out so far and above the id of every
  row of the table (rows are never removed, so these are all the ids assigned before);
  the other columns are the fields of the body.
\<close>

theorem create_assigns_fresh_id:
  assumes "demonSchema uri b" and "\<not> nameTaken s (body_name b)"
  shows "post_demons uri None s b =
           (Reply 201 (Created (insertedRow s (bodyParams b))),
            \<lparr> rows = rows s @ [insertedRow s (bodyParams b)],
              seq = demon_id (insertedRow s (bodyParams b)) \<rparr>)
         \<and> 0 < demon_id (insertedRow s (bodyParams b))
         \<and> seq s < demon_id (insertedRow s (bodyParams b))
         \<and> list_all (\<lambda>r. demon_id r < demon_id (insertedRow s (bodyParams b))) (rows s)
         \<and> demon_name (insertedRow s (bodyParams b)) = body_name b
         \<and> demon_description (insertedRow s (bodyParams b)) = body_description b
         \<and> demon_race (insertedRow s (bodyParams b)) = body_race b
         \<and> demon_alignment (insertedRow s (bodyParams b)) = body_alignment b
         \<and> demon_imageUrl (insertedRow s (bodyParams b)) = body_imageUrl b"
proof -
  let ?row = "insertedRow s (bodyParams b)"
  have id: "demon_id ?row = newRowid s" by (simp add: insertedRow_body)
  have run: "run_insert None s (bodyParams b) =
      Inr (newRowid s, \<lparr> rows = rows s @ [?row], seq = newRowid s \<rparr>)"
    using demonSchema_name [OF assms(1)] assms(2) by (rule run_insert_fresh)
  have post: "post_demons uri None s b =
      (Reply 201 (Created ?row), \<lparr> rows = rows s @ [?row], seq = demon_id ?row \<rparr>)"
    using assms(1) by (simp add: post_demons_def run insertedRow_body)
  have above: "list_all (\<lambda>r. demon_id r < demon_id ?row) (rows s)"
    by (simp add: list_all_iff id newRowid_above_rows)
  have pos: "0 < demon_id ?row" by (simp add: id newRowid_def)
  have sq: "seq s < demon_id ?row" by (simp add: id newRowid_above_seq)
  show ?thesis using post above pos sq by (simp add: insertedRow_body)
qed

text \<open>The first create on an empty table stores the row with id 1.\<close>

theorem create_assigns_fresh_id_witness:
  "post_demons anyUri None emptyStore (createBody ''Pixie'' ''Fata'' (Some ''Neutral''))
     = (Reply 201 (Created (demonRow 1 ''Pixie'' (Some ''Fata'') ''Neutral'')),
        \<lparr> rows = [demonRow 1 ''Pixie'' (Some ''Fata'') ''Neutral''], seq = 1 \<rparr>)"
proof -
  have v: "demonSchema anyUri (createBody ''Pixie'' ''Fata'' (Some ''Neutral''))"
    by (simp add: demonSchema_def arrayIncludes_def alignmentEnum_def)
  have f: "\<not> nameTaken emptyStore (body_name (createBody ''Pixie'' ''Fata'' (Some ''Neutral'')))"
    by (simp add: nameTaken_def)
  from create_assigns_fresh_id [OF v f] show ?thesis
    by (simp add: insertedRow_body newRowid_def)
qed

lemma post_storage_failure:
  assumes "demonSchema uri b" and "\<not> stringIncludes msg ''UNIQUE constraint failed''"
  shows "post_demons uri (Some msg) s b = (Reply 500 (Error ''Internal Server Error''), s)"
  using assms by (simp add: post_demons_def run_insert_def)

lemma locked_is_not_unique:
  "\<not> stringIncludes ''SQLITE_BUSY: database is locked'' ''UNIQUE constraint failed''"
  by simp

text \<open>
  C4, as the code has it. When a create request has succeeded (201) and a second request
  carries the same name and satisfies the schema, the second is answered 409 with the
  body \<open>Demon already exists\<close> when the storage works. That reply is kept for the
  uniqueness failure: a failure of the storage whose message does not hold
  \<open>UNIQUE constraint failed\<close>, such as a locked database, is answered 500 with
  \<open>Internal Server Error\<close>. In each case the store is the one the first request left,
  and it holds exactly one row of that name. Names are compared as they are, character
  by character.
\<close>

theorem duplicate_name_conflict:
  assumes "post_demons uri io s b1 = (Reply 201 p, s1)"
    and "demonSchema uri b2" and "body_name b2 = body_name b1"
  shows "post_demons uri None s1 b2 = (Reply 409 (Error ''Demon already exists''), s1)
         \<and> (\<forall>msg. \<not> stringIncludes msg ''UNIQUE constraint failed'' \<longrightarrow>
               post_demons uri (Some msg) s1 b2 = (Reply 500 (Error ''Internal Server Error''), s1))
         \<and> post_demons uri (Some ''SQLITE_BUSY: database is locked'') s1 b2
             = (Reply 500 (Error ''Internal Server Error''), s1)
         \<and> length (filter (\<lambda>r. demon_name r = body_name b1) (rows s1)) = 1"
proof -
  from post_created_cases [OF assms(1)]
  have fresh: "\<not> nameTaken s (body_name b1)"
    and s1: "s1 = \<lparr> rows = rows s @ [insertedRow s (bodyParams b1)], seq = newRowid s \<rparr>"
    by simp_all
  have nm: "demon_name (insertedRow s (bodyParams b1)) = body_name b1"
    by (simp add: insertedRow_body)
  have taken: "nameTaken s1 (body_name b2)"
    by (simp add: s1 nameTaken_def nm assms(3))
  have post: "post_demons uri None s1 b2 = (Reply 409 (Error ''Demon already exists''), s1)"
    using assms(2) taken by (rule post_conflict_when_taken)
  have other: "post_demons uri (Some msg) s1 b2 = (Reply 500 (Error ''Internal Server Error''), s1)"
    if "\<not> stringIncludes msg ''UNIQUE constraint failed''" for msg
    using assms(2) that by (rule post_storage_failure)
  have one: "length (filter (\<lambda>r. demon_name r = body_name b1) (rows s1)) = 1"
    by (simp add: s1 nm filter_name_absent [OF fresh])
  show ?thesis using post other other [OF locked_is_not_unique] one by blast
qed

text \<open>
  Two creates of \<open>Pixie\<close> with different races: the second is the conflict, and with
  the database locked it is the generic failure.
\<close>

theorem duplicate_name_conflict_witness:
  "post_demons anyUri None
      \<lparr> rows = [demonRow 1 ''Pixie'' (Some ''Fata'') ''Neutral''], seq = 1 \<rparr>
      (createBody ''Pixie'' ''Genma'' (Some ''Law''))
     = (Reply 409 (Error ''Demon already exists''),
        \<lparr> rows = [demonRow 1 ''Pixie'' (Some ''Fata'') ''Neutral''], seq = 1 \<rparr>)
   \<and> post_demons anyUri (Some ''SQLITE_BUSY: database is locked'')
      \<lparr> rows = [demonRow 1 ''Pixie'' (Some ''Fata'') ''Neutral''], seq = 1 \<rparr>
      (createBody ''Pixie'' ''Genma'' (Some ''Law''))
     = (Reply 500 (Error ''Internal Server Error''),
        \<lparr> rows = [demonRow 1 ''Pixie'' (Some ''Fata'') ''Neutral''], seq = 1 \<rparr>)"
proof -
  have first: "post_demons anyUri None emptyStore (createBody ''Pixie'' ''Fata'' (Some ''Neutral''))
     = (Reply 201 (Created (demonRow 1 ''Pixie'' (Some ''Fata'') ''Neutral'')),
        \<lparr> rows = [demonRow 1 ''Pixie'' (Some ''Fata'') ''Neutral''], seq = 1 \<rparr>)"
    by (simp add: post_demons_def demonSchema_def arrayIncludes_def alignmentEnum_def run_insert_def
          bodyParams_def nameTaken_def newRowid_def insertedRow_def)
  have v: "demonSchema anyUri (createBody ''Pixie'' ''Genma'' (Some ''Law''))"
    by (simp add: demonSchema_def arrayIncludes_def alignmentEnum_def)
  from duplicate_name_conflict [OF first v] show ?thesis by simp
qed

text \<open>
  C4 as stated fails when the second request does not satisfy the schema: after a first
  create of \<open>Pixie\<close>, a second one with the same name and the alignment \<open>Evil\<close> is
  answered 400 by the validation, not 409.
\<close>

theorem duplicate_name_invalid_body_counterexample:
  "post_demons anyUri None emptyStore (createBody ''Pixie'' ''Fata'' (Some ''Neutral''))
     = (Reply 201 (Created (demonRow 1 ''Pixie'' (Some ''Fata'') ''Neutral'')),
        \<lparr> rows = [demonRow 1 ''Pixie'' (Some ''Fata'') ''Neutral''], seq = 1 \<rparr>)
   \<and> post_demons anyUri None
        \<lparr> rows = [demonRow 1 ''Pixie'' (Some ''Fata'') ''Neutral''], seq = 1 \<rparr>
        (createBody ''Pixie'' ''Fata'' (Some ''Evil''))
     = (Reply 400 ValidationError,
        \<lparr> rows = [demonRow 1 ''Pixie'' (Some ''Fata'') ''Neutral''], seq = 1 \<rparr>)"
  by (simp add: post_demons_def demonSchema_def arrayIncludes_def alignmentEnum_def run_insert_def
        bodyParams_def nameTaken_def newRowid_def insertedRow_def)

section \<open>The seed loader\<close>

text \<open>
  C9, as the code has it. The image bound for a seed object is \<open>image_source_url\<close> when
  that field is present and not empty; otherwise \<open>img\<close> when that one is present and not
  empty; otherwise the empty string. When the object has a name that no row holds, the
  row appended to the table carries that image.
\<close>

theorem seed_image_normalised:
  "seedImg d =
     (if truthy (image_source_url d) then image_source_url d
      else if truthy (img d) then img d else Some [])
   \<and> (seed_name d \<noteq> None \<and> \<not> nameTaken s (seed_name d) \<longrightarrow>
        rows (seedDemon s d) = rows s @ [insertedRow s (seedParams d)]
        \<and> demon_imageUrl (insertedRow s (seedParams d)) = seedImg d)"
  by (auto simp: seedImg_def truthy_def seedDemon_def run_insert_or_ignore_def insertedRow_def
        seedParams_def split: option.splits)

text \<open>A seed object with only the legacy field \<open>img\<close>, loaded into an empty table.\<close>

theorem seed_image_normalised_witness:
  "rows (seedDemon emptyStore (seedOf ''Pixie'' None (Some ''pixie.png'')))
     = [\<lparr> demon_id = 1, demon_name = Some ''Pixie'', demon_description = None,
          demon_race = Some ''Fata'', demon_alignment = Some ''Neutral'',
          demon_imageUrl = Some ''pixie.png'' \<rparr>]"
  using seed_image_normalised [of "seedOf ''Pixie'' None (Some ''pixie.png'')" emptyStore]
  by (simp add: nameTaken_def truthy_def insertedRow_def seedParams_def newRowid_def seedImg_def)

text \<open>
  C9 as stated fails where \<open>image_source_url\<close> is present and empty: the image bound is
  then the value of \<open>img\<close>, not the value of \<open>image_source_url\<close>.
\<close>

theorem seed_image_counterexample:
  "image_source_url (seedOf ''Pixie'' (Some []) (Some ''pixie.png'')) = Some []
   \<and> seedImg (seedOf ''Pixie'' (Some []) (Some ''pixie.png'')) = Some ''pixie.png''
   \<and> rows (seedDemon emptyStore (seedOf ''Pixie'' (Some []) (Some ''pixie.png'')))
     = [\<lparr> demon_id = 1, demon_name = Some ''Pixie'', demon_description = None,
          demon_race = Some ''Fata'', demon_alignment = Some ''Neutral'',
          demon_imageUrl = Some ''pixie.png'' \<rparr>]"
  by (simp add: seedImg_def seedDemon_def run_insert_or_ignore_def seedParams_def nameTaken_def
        insertedRow_def newRowid_def)

section \<open>The list route: what reaches the engine\<close>

lemmas parseInt_eval = parseInt_def isWhiteSpace_def hasHexPrefix_def parseDigits_def
  isDigitOf_def digitValue_def

lemma parseInt_examples:
  "parseInt ''2'' = Some 2" "parseInt ''5'' = Some 5" "parseInt ''0'' = Some 0"
  "parseInt ''1'' = Some 1" "parseInt ''-5'' = Some (- 5)" "parseInt ''-1'' = Some (- 1)"
  "parseInt ''abc'' = None" "parseInt ''3'' = Some 3"
  by (simp_all add: parseInt_eval)

lemmas statement_eval = listStatement_def sortClause_def filterClause_def orDefault_def
  rawLimit_def rawOffset_def rawPage_def js_mul_def js_sub_def parseInt_examples


lemma stringParams_strings:
  "stringParams (rawRequest (map_option Str f) (map_option Str t) (map_option Str p)
      (map_option Str ps)) = Inr (listRequest f t p ps)"
  by (cases f; cases t; cases p; cases ps) (simp_all add: stringParams_def paramToString_def)

text \<open>
  A request that gives each parameter at most once is handled on its strings, so what
  holds of \<open>list_demons\<close> holds of the route on such requests.
\<close>

lemma get_demons_given_once:
  "get_demons affinity io_error
      (rawRequest (map_option Str f) (map_option Str t) (map_option Str p) (map_option Str ps)) rs
     = list_demons affinity io_error (listRequest f t p ps) rs"
  by (simp add: get_demons_def stringParams_strings)

lemma get_demons_strings:
  "stringParams rq = Inr q \<Longrightarrow> get_demons affinity io_error rq rs = list_demons affinity io_error q rs"
  by (simp add: get_demons_def)

lemma get_demons_thrown:
  "stringParams rq = Inl msg \<Longrightarrow> get_demons affinity io_error rq rs = Reply 500 (Thrown msg)"
  by (simp add: get_demons_def)

lemma safeLimit_positive: "1 \<le> safeLimit (listStatement q)"
  by (simp add: listStatement_def orDefault_def split: option.splits)

lemma safeOffset_not_negative: "0 \<le> safeOffset (listStatement q)"
  by (simp add: listStatement_def orDefault_def split: option.splits)

text \<open>The limit is never negative, so the reply is always a window of the ordered rows.\<close>

lemma db_all_window:
  "db_all affinity (listStatement q) rs =
     take (nat (safeLimit (listStatement q))) (drop (nat (safeOffset (listStatement q)))
       (orderRows (orderBy (listStatement q))
          (filter (whereMatches affinity (whereClause (listStatement q))) rs)))"
  using safeLimit_positive [of q] by (simp add: db_all_def limitOffset_def)

lemma where_none: "filter (whereMatches affinity None) rs = rs"
  by (simp add: whereMatches_def)



section \<open>The list route: ordering\<close>

lemma sorted_window:
  assumes "sorted_wrt R (map f xs)"
  shows "sorted_wrt R (map f (take n (drop m xs)))"
proof -
  have "sorted_wrt R (take n (drop m (map f xs)))"
    using assms by (intro sorted_wrt_take sorted_wrt_drop)
  then show ?thesis by (simp add: take_map drop_map)
qed


text \<open>Two rows of the same race, sorted by race in descending order, keep their order.\<close>

lemma desc_ties_keep_order:
  "orderRows (Some (''race'', ''DESC''))
      [demonRow 1 ''Pixie'' (Some ''Fata'') ''Neutral'',
       demonRow 2 ''Jack Frost'' (Some ''Fata'') ''Neutral'']
     = [demonRow 1 ''Pixie'' (Some ''Fata'') ''Neutral'',
        demonRow 2 ''Jack Frost'' (Some ''Fata'') ''Neutral'']"
  by (simp add: orderRows_def sortDesc_def columnText_def)





lemmas sortMatch_eval = sortMatch_def isAlnum_def toUpperCase_def upperChar_def

lemma sortMatch_examples:
  "sortMatch ''name_asc'' = Some (''name'', ''asc'')"
  "sortMatch ''id_desc'' = Some (''id'', ''desc'')"
  "sortMatch ''name_sideways'' = None"
  "sortMatch ''description_asc'' = Some (''description'', ''asc'')"
  by (simp_all add: sortMatch_eval)



lemma invalid_sort_no_order:
  assumes "sort_param q = Some t" and "t \<noteq> []"
    and "case sortMatch t of None \<Rightarrow> True | Some (col, dir) \<Rightarrow> \<not> arrayIncludes allowedSorts col"
  shows "orderBy (listStatement q) = None"
  using assms by (auto simp: listStatement_def sortClause_def split: option.splits)

lemma absent_sort_orders_by_id:
  assumes "sort_param q = None \<or> sort_param q = Some []"
  shows "orderBy (listStatement q) = Some (''id'', ''ASC'')"
  using assms by (auto simp: listStatement_def sortClause_def)

text \<open>
  A \<open>$sort\<close> given once that the handler refuses. No ORDER BY is appended: the default
  \<open>ORDER BY id ASC\<close> is on the else branch of \<open>if ($sort)\<close>. The engine then returns
  the rows as it visits them, which is in ascending order of id, so the reply is the
  one of the same request without \<open>$sort\<close>.
\<close>

lemma refused_sort_sends_no_order_by:
  "sqlText (listStatement (listRequest None (Some ''name_sideways'') None None))
     = ''SELECT * FROM demons LIMIT ? OFFSET ?''
   \<and> sqlText (listStatement (listRequest None (Some ''description_asc'') None None))
     = ''SELECT * FROM demons LIMIT ? OFFSET ?''
   \<and> sqlText (listStatement (listRequest None None None None))
     = ''SELECT * FROM demons ORDER BY id ASC LIMIT ? OFFSET ?''"
  by (simp add: sqlText_def statement_eval sortMatch_examples arrayIncludes_def allowedSorts_def)

lemma orderRows_by_id_sorted:
  assumes "sorted (map demon_id xs)"
  shows "orderRows (Some (''id'', ''ASC'')) xs = xs"
  using assms by (simp add: orderRows_def sort_key_id_if_sorted)

lemma refused_sort_same_as_no_sort:
  assumes "sort_param q = Some t"
    and "case sortMatch t of None \<Rightarrow> True | Some (col, dir) \<Rightarrow> \<not> arrayIncludes allowedSorts col"
    and "sorted (map demon_id rs)"
  shows "list_demons affinity io_error q rs = list_demons affinity io_error (q\<lparr> sort_param := None \<rparr>) rs
         \<and> (\<exists>res. list_demons affinity None q rs = Reply 200 (Rows res) \<and> sorted (map demon_id res))"
proof -
  let ?q' = "q\<lparr> sort_param := None \<rparr>"
  let ?m = "filter (whereMatches affinity (whereClause (listStatement q))) rs"
  have m: "sorted (map demon_id ?m)" using assms(3) by (rule sorted_filter)
  have ob: "orderBy (listStatement q) = None \<or> orderBy (listStatement q) = Some (''id'', ''ASC'')"
    using assms(1,2) by (auto simp: listStatement_def sortClause_def split: option.splits)
  have ob': "orderBy (listStatement ?q') = Some (''id'', ''ASC'')"
    by (simp add: listStatement_def sortClause_def)
  have rest: "whereClause (listStatement ?q') = whereClause (listStatement q)"
    "safeLimit (listStatement ?q') = safeLimit (listStatement q)"
    "safeOffset (listStatement ?q') = safeOffset (listStatement q)"
    by (simp_all add: listStatement_def rawLimit_def rawOffset_def rawPage_def)
  have ord: "orderRows (orderBy (listStatement q)) ?m = ?m"
    using ob orderRows_by_id_sorted [OF m] by (auto simp: orderRows_def)
  have db: "db_all affinity (listStatement q) rs
      = take (nat (safeLimit (listStatement q))) (drop (nat (safeOffset (listStatement q))) ?m)"
    by (simp add: db_all_window ord)
  have db': "db_all affinity (listStatement ?q') rs = db_all affinity (listStatement q) rs"
    unfolding db by (simp add: db_all_window rest ob' orderRows_by_id_sorted [OF m])
  have srt: "sorted (map demon_id (db_all affinity (listStatement q) rs))"
    unfolding db using m by (rule sorted_window)
  have same: "list_demons affinity io_error q rs = list_demons affinity io_error ?q' rs"
    unfolding list_demons_def db' by (rule refl)
  have ok: "list_demons affinity None q rs = Reply 200 (Rows (db_all affinity (listStatement q) rs))"
    by (simp add: list_demons_def)
  show ?thesis using same ok srt by blast
qed

text \<open>
  C1. The code at \<open>$sort=name_sideways&$sort=id_sideways\<close>. The parameter is present
  and matches nothing, but it reaches the handler as an array, which has no \<open>match\<close>:
  the handler throws and the request is answered 500, with any storage and any table,
  where the fallback of the claim is the reply to the request without \<open>$sort\<close>, the
  first ten rows by id.
\<close>

theorem repeated_sort_is_answered_500:
  "get_demons affinity io_error
      (rawRequest None (Some (Arr [''name_sideways'', ''id_sideways''])) None None) rs
     = Reply 500 (Thrown ''$sort.match is not a function'')
   \<and> get_demons affinity None (rawRequest None None None None) rs
     = Reply 200 (Rows (take 10 (sort_key demon_id rs)))"
  by (simp add: get_demons_def stringParams_def list_demons_def db_all_def limitOffset_def
        where_none statement_eval orderRows_def)

section \<open>The list route: filtering\<close>

lemma filterClause_ignored:
  assumes "length (js_split CHR '':'' f) \<noteq> 2
           \<or> \<not> arrayIncludes allowedFilters (hd (js_split CHR '':'' f))"
  shows "filterClause (Some f) = None"
  using assms by (auto simp: filterClause_def split: list.splits)

lemma filterClause_parsed:
  assumes "js_split CHR '':'' f = [key, val]" and "arrayIncludes allowedFilters key"
  shows "filterClause (Some f) = Some (key, val)"
proof -
  have "f \<noteq> []" using assms(1) by auto
  then show ?thesis using assms by (simp add: filterClause_def)
qed

text \<open>On strings: a refused filter leaves the statement of the request without filter.\<close>

lemma refused_filter_statement:
  assumes "filter_param q = Some f"
    and "length (js_split CHR '':'' f) \<noteq> 2
         \<or> \<not> arrayIncludes allowedFilters (hd (js_split CHR '':'' f))"
  shows "listStatement q = listStatement (q\<lparr> filter_param := None \<rparr>)"
proof -
  have "filterClause (filter_param q) = filterClause None"
    using filterClause_ignored [OF assms(2)] assms(1) by (simp add: filterClause_def)
  then show ?thesis
    by (simp add: listStatement_def rawLimit_def rawOffset_def rawPage_def)
qed

lemma stringParams_filter_once:
  assumes "qs_filter rq = Some (Str f)"
  shows "(\<forall>q. stringParams rq = Inr q \<longrightarrow>
            filter_param q = Some f
            \<and> stringParams (rq\<lparr> qs_filter := None \<rparr>) = Inr (q\<lparr> filter_param := None \<rparr>))
         \<and> (\<forall>msg. stringParams rq = Inl msg \<longrightarrow>
               stringParams (rq\<lparr> qs_filter := None \<rparr>) = Inl msg)"
  using assms
  by (auto simp: stringParams_def paramToString_def split: option.splits param.splits)

text \<open>A filter given more than once is an array: the handler throws at \<open>filter.split\<close>.\<close>

lemma repeated_filter_is_answered_500:
  "get_demons affinity io_error (rawRequest (Some (Arr [''race:Fata'', ''name:Pixie''])) t p ps) rs
     = Reply 500 (Thrown ''filter.split is not a function'')"
  by (simp add: get_demons_def stringParams_def)

text \<open>
  C2, as the code has it, for a filter given once, which reaches the handler as a
  string. The filter is split at every colon. When that does not give exactly two parts
  (no colon, or more than one), or the first part is not an allowlisted column, the
  reply is the reply to the same request without filter: the filter itself produces no
  error, and when the handler gets as far as the statement, the statement is the one
  without filter and the reply is 200 with its rows. When the split gives exactly two
  parts and the first is allowlisted, these are the column and the bound value.
\<close>

theorem filter_ignored_unless_two_parts:
  assumes "qs_filter rq = Some (Str f)"
  shows "(length (js_split CHR '':'' f) \<noteq> 2
            \<or> \<not> arrayIncludes allowedFilters (hd (js_split CHR '':'' f)) \<longrightarrow>
          get_demons affinity io_error rq rs
              = get_demons affinity io_error (rq\<lparr> qs_filter := None \<rparr>) rs
          \<and> (\<forall>q. stringParams rq = Inr q \<longrightarrow>
                listStatement q = listStatement (q\<lparr> filter_param := None \<rparr>)
                \<and> get_demons affinity None rq rs
                    = Reply 200 (Rows (db_all affinity (listStatement (q\<lparr> filter_param := None \<rparr>)) rs))))
       \<and> (\<forall>key val q. js_split CHR '':'' f = [key, val] \<and> arrayIncludes allowedFilters key
              \<and> stringParams rq = Inr q \<longrightarrow>
            whereClause (listStatement q) = Some (key, val))"
proof -
  note once = stringParams_filter_once [OF assms]
  have ignored: "listStatement q = listStatement (q\<lparr> filter_param := None \<rparr>)"
    if "length (js_split CHR '':'' f) \<noteq> 2
        \<or> \<not> arrayIncludes allowedFilters (hd (js_split CHR '':'' f))"
      and "stringParams rq = Inr q" for q
    using once that(2) refused_filter_statement [OF _ that(1), of q] by simp
  have ok: "get_demons affinity None rq rs
      = Reply 200 (Rows (db_all affinity (listStatement (q\<lparr> filter_param := None \<rparr>)) rs))"
    if "length (js_split CHR '':'' f) \<noteq> 2
        \<or> \<not> arrayIncludes allowedFilters (hd (js_split CHR '':'' f))"
      and "stringParams rq = Inr q" for q
    unfolding get_demons_strings [OF that(2)] list_demons_def ignored [OF that] by simp
  have same: "get_demons affinity io_error rq rs
      = get_demons affinity io_error (rq\<lparr> qs_filter := None \<rparr>) rs"
    if r: "length (js_split CHR '':'' f) \<noteq> 2
        \<or> \<not> arrayIncludes allowedFilters (hd (js_split CHR '':'' f))"
  proof (cases "stringParams rq")
    case (Inl msg)
    with once have "stringParams (rq\<lparr> qs_filter := None \<rparr>) = Inl msg" by simp
    with Inl show ?thesis by (simp add: get_demons_def)
  next
    case (Inr q)
    with once have q': "stringParams (rq\<lparr> qs_filter := None \<rparr>) = Inr (q\<lparr> filter_param := None \<rparr>)"
      by simp
    show ?thesis
      unfolding get_demons_strings [OF Inr] get_demons_strings [OF q'] list_demons_def
        ignored [OF r Inr] by simp
  qed
  have parsed: "whereClause (listStatement q) = Some (key, val)"
    if "js_split CHR '':'' f = [key, val]" and "arrayIncludes allowedFilters key"
      and "stringParams rq = Inr q" for key val q
    using filterClause_parsed [OF that(1,2)] once that(3) by (simp add: listStatement_def)
  show ?thesis using ignored ok same parsed by blast
qed

text \<open>
  \<open>name:a:b\<close> and \<open>bogus:x\<close> are ignored, also next to a \<open>$sort\<close> given twice, where
  both requests are answered 500 by \<open>$sort\<close>; \<open>race:Fata\<close> is the column \<open>race\<close> and the
  value \<open>Fata\<close>.
\<close>

theorem filter_ignored_unless_two_parts_witness:
  "get_demons noAffinity None (rawRequest (Some (Str ''name:a:b'')) None None None)
      [demonRow 1 ''Pixie'' (Some ''Fata'') ''Neutral'']
     = get_demons noAffinity None (rawRequest None None None None)
      [demonRow 1 ''Pixie'' (Some ''Fata'') ''Neutral'']
   \<and> get_demons noAffinity None (rawRequest (Some (Str ''bogus:x'')) None None None)
      [demonRow 1 ''Pixie'' (Some ''Fata'') ''Neutral'']
     = Reply 200 (Rows [demonRow 1 ''Pixie'' (Some ''Fata'') ''Neutral''])
   \<and> get_demons noAffinity None
      (rawRequest (Some (Str ''bogus:x'')) (Some (Arr [''id_asc'', ''id_desc''])) None None) []
     = get_demons noAffinity None
      (rawRequest None (Some (Arr [''id_asc'', ''id_desc''])) None None) []
   \<and> whereClause (listStatement (listRequest (Some ''race:Fata'') None None None))
     = Some (''race'', ''Fata'')"
proof -
  let ?rs = "[demonRow 1 ''Pixie'' (Some ''Fata'') ''Neutral'']"
  have three: "length (js_split CHR '':'' ''name:a:b'') \<noteq> 2" by simp
  have bogus: "\<not> arrayIncludes allowedFilters (hd (js_split CHR '':'' ''bogus:x''))"
    by (simp add: arrayIncludes_def allowedFilters_def)
  have two: "js_split CHR '':'' ''race:Fata'' = [''race'', ''Fata'']" by simp
  have ok: "arrayIncludes allowedFilters ''race''"
    by (simp add: arrayIncludes_def allowedFilters_def)
  have sp: "stringParams (rawRequest (Some (Str f)) None None None)
      = Inr (listRequest (Some f) None None None)" for f
    by (simp add: stringParams_def paramToString_def)
  have given: "qs_filter (rawRequest (Some (Str f)) t p ps) = Some (Str f)" for f t p ps
    by simp
  have none: "db_all noAffinity (listStatement (listRequest None None None None)) ?rs = ?rs"
    by (simp add: db_all_def limitOffset_def whereMatches_def statement_eval orderRows_def)
  have c1: "get_demons noAffinity None (rawRequest (Some (Str ''name:a:b'')) None None None) ?rs
      = get_demons noAffinity None (rawRequest None None None None) ?rs"
    using filter_ignored_unless_two_parts [of "rawRequest (Some (Str ''name:a:b'')) None None None"
        "''name:a:b''" noAffinity None ?rs] three
    by simp
  have "get_demons noAffinity None (rawRequest (Some (Str ''bogus:x'')) None None None) ?rs
      = Reply 200 (Rows (db_all noAffinity
          (listStatement ((listRequest (Some ''bogus:x'') None None None)\<lparr> filter_param := None \<rparr>)) ?rs))"
    using filter_ignored_unless_two_parts [where rq = "rawRequest (Some (Str ''bogus:x'')) None None None"
        and f = "''bogus:x''" and affinity = noAffinity and io_error = None and rs = ?rs, OF given]
      bogus sp [of "''bogus:x''"]
    by blast
  then have c2: "get_demons noAffinity None (rawRequest (Some (Str ''bogus:x'')) None None None) ?rs
      = Reply 200 (Rows ?rs)"
    using none by simp
  have c3: "get_demons noAffinity None
      (rawRequest (Some (Str ''bogus:x'')) (Some (Arr [''id_asc'', ''id_desc''])) None None) []
     = get_demons noAffinity None
      (rawRequest None (Some (Arr [''id_asc'', ''id_desc''])) None None) []"
    using filter_ignored_unless_two_parts [of
        "rawRequest (Some (Str ''bogus:x'')) (Some (Arr [''id_asc'', ''id_desc''])) None None"
        "''bogus:x''" noAffinity None "[]"] bogus
    by simp
  have c4: "whereClause (listStatement (listRequest (Some ''race:Fata'') None None None))
     = Some (''race'', ''Fata'')"
    using filter_ignored_unless_two_parts [of "rawRequest (Some (Str ''race:Fata'')) None None None"
        "''race:Fata''"] two ok sp [of "''race:Fata''"]
    by simp
  show ?thesis using c1 c2 c3 c4 by (intro conjI)
qed

text \<open>
  C2 as stated fails on a value that holds a colon: \<open>name:a:b\<close> gives three parts, so
  there is no WHERE clause at all, and none on \<open>name\<close> with the value \<open>a:b\<close>.
\<close>

theorem filter_colon_in_value_counterexample:
  "js_split CHR '':'' ''name:a:b'' = [''name'', ''a'', ''b'']
   \<and> stringParams (rawRequest (Some (Str ''name:a:b'')) None None None)
       = Inr (listRequest (Some ''name:a:b'') None None None)
   \<and> whereClause (listStatement (listRequest (Some ''name:a:b'') None None None)) = None
   \<and> whereClause (listStatement (listRequest (Some ''name:a:b'') None None None))
       \<noteq> Some (''name'', ''a:b'')
   \<and> sqlText (listStatement (listRequest (Some ''name:a:b'') None None None))
       = ''SELECT * FROM demons ORDER BY id ASC LIMIT ? OFFSET ?''"
  by (simp add: sqlText_def statement_eval stringParams_def paramToString_def)






section \<open>The list route: pagination\<close>

text \<open>
  \<open>$page=2&$pageSize=5\<close> binds LIMIT 5 OFFSET 5: rows 6 to 10 of the filtered, ordered
  rows. A page that is not a number, and page 0 with a page size that is not negative,
  give the statement of page 1.
\<close>

lemma page_two_size_five:
  assumes "page_param q = Some ''2''" and "pageSize_param q = Some ''5''"
  shows "safeLimit (listStatement q) = 5 \<and> safeOffset (listStatement q) = 5
         \<and> list_demons affinity None q rs =
             Reply 200 (Rows (take 5 (drop 5 (orderRows (orderBy (listStatement q))
               (filter (whereMatches affinity (whereClause (listStatement q))) rs)))))"
proof -
  have l: "safeLimit (listStatement q) = 5" and o: "safeOffset (listStatement q) = 5"
    using assms by (simp_all add: statement_eval)
  show ?thesis using db_all_window [of affinity q rs] by (simp add: l o list_demons_def)
qed

lemma page_not_numeric_is_page_one:
  assumes "page_param q = Some p" and "parseInt p = None"
  shows "listStatement q = listStatement (q\<lparr> page_param := Some ''1'' \<rparr>)"
  using assms by (simp add: statement_eval split: option.splits)

lemma page_zero_is_page_one:
  assumes "page_param q = Some p" and "parseInt p = Some 0"
    and "case rawLimit q of None \<Rightarrow> True | Some l \<Rightarrow> 0 \<le> l"
  shows "listStatement q = listStatement (q\<lparr> page_param := Some ''1'' \<rparr>)"
  using assms by (simp add: statement_eval split: option.splits)

text \<open>
  C3. The code at \<open>$page=0&$pageSize=-5\<close>. The offset is computed from the raw page
  size, \<open>(0 - 1) * (-5) = 5\<close>, which passes the guard on negative offsets, while the limit
  is replaced by 10: the request skips five rows, where \<open>$page=1\<close> with the same page
  size starts at the first row.
\<close>

theorem page_zero_negative_size_skips_rows:
  "sqlParams (listStatement (listRequest None None (Some ''0'') (Some ''-5'')))
     = [Number 10, Number 5]
   \<and> sqlParams (listStatement (listRequest None None (Some ''1'') (Some ''-5'')))
     = [Number 10, Number 0]
   \<and> list_demons affinity None (listRequest None None (Some ''0'') (Some ''-5'')) rs
     = Reply 200 (Rows (take 10 (drop 5 (sort_key demon_id rs))))
   \<and> list_demons affinity None (listRequest None None (Some ''1'') (Some ''-5'')) rs
     = Reply 200 (Rows (take 10 (sort_key demon_id rs)))"
  by (simp add: sqlParams_def list_demons_def db_all_def limitOffset_def where_none statement_eval
        orderRows_def)

text \<open>
  An invalid page size with a page of 1 or more. When \<open>$pageSize\<close> is not a number or
  is below 1, the limit is 10; the offset is 0 for every \<open>$page\<close> that is not a number or
  is at least 1, and for every \<open>$page\<close> at all when \<open>$pageSize\<close> is not a number or is 0.
\<close>

lemma invalid_page_size_discards_page:
  assumes "pageSize_param q = Some ps"
    and "case parseInt ps of None \<Rightarrow> True | Some l \<Rightarrow> l < 1"
    and "case rawPage q of None \<Rightarrow> True
         | Some p \<Rightarrow> 1 \<le> p \<or> parseInt ps = None \<or> parseInt ps = Some 0"
  shows "safeLimit (listStatement q) = 10 \<and> safeOffset (listStatement q) = 0
         \<and> list_demons affinity None q rs =
             Reply 200 (Rows (take 10 (orderRows (orderBy (listStatement q))
               (filter (whereMatches affinity (whereClause (listStatement q))) rs))))"
proof -
  have l: "safeLimit (listStatement q) = 10"
    using assms(1,2) by (simp add: listStatement_def orDefault_def rawLimit_def split: option.splits)
  have o: "safeOffset (listStatement q) = 0"
  proof (cases "rawPage q")
    case None
    then show ?thesis
      by (simp add: listStatement_def orDefault_def rawOffset_def js_mul_def js_sub_def)
  next
    case (Some p)
    show ?thesis
    proof (cases "parseInt ps")
      case None
      then show ?thesis using assms(1) Some
        by (simp add: listStatement_def orDefault_def rawOffset_def rawLimit_def js_mul_def js_sub_def)
    next
      case (Some l)
      with assms(2) have l1: "l < 1" by simp
      from assms(3) \<open>rawPage q = Some p\<close> Some have "1 \<le> p \<or> l = 0" by simp
      then have "(p - 1) * l \<le> 0"
      proof
        assume "1 \<le> p"
        then have "0 \<le> p - 1" by simp
        moreover have "l \<le> 0" using l1 by simp
        ultimately show ?thesis by (rule mult_nonneg_nonpos)
      next
        assume "l = 0"
        then show ?thesis by simp
      qed
      then show ?thesis using assms(1) Some \<open>rawPage q = Some p\<close>
        by (simp add: listStatement_def orDefault_def rawOffset_def rawLimit_def js_mul_def js_sub_def)
    qed
  qed
  show ?thesis using db_all_window [of affinity q rs] by (simp add: l o list_demons_def)
qed

text \<open>
  C10. The code at \<open>$page=-1&$pageSize=-5\<close>. The page size is below 1, so the limit is
  replaced by 10, but the offset is computed from the raw page size,
  \<open>(-1 - 1) * (-5) = 10\<close>, which passes the guard on negative offsets: the statement
  binds LIMIT 10 OFFSET 10 and the reply starts at the eleventh row, not at the first.
  The same page with the page sizes \<open>5\<close> and \<open>abc\<close>, and page 3 with the page size
  \<open>-5\<close>, bind offset 0.
\<close>

theorem negative_page_and_size_bind_offset:
  "sqlParams (listStatement (listRequest None None (Some ''-1'') (Some ''-5'')))
     = [Number 10, Number 10]
   \<and> list_demons affinity None (listRequest None None (Some ''-1'') (Some ''-5'')) rs
     = Reply 200 (Rows (take 10 (drop 10 (sort_key demon_id rs))))
   \<and> sqlParams (listStatement (listRequest None None (Some ''-1'') (Some ''5'')))
     = [Number 5, Number 0]
   \<and> sqlParams (listStatement (listRequest None None (Some ''-1'') (Some ''abc'')))
     = [Number 10, Number 0]
   \<and> sqlParams (listStatement (listRequest None None (Some ''3'') (Some ''-5'')))
     = [Number 10, Number 0]"
  by (simp add: sqlParams_def list_demons_def db_all_def limitOffset_def where_none statement_eval
        orderRows_def)

end
